theory Spec2Isabelle
  imports Main "HOL-Library.Char_ord" "HOL-Library.List_Lexorder"
begin

section \<open>Python text primitives used by \<open>prompt_toolkit/styles/style.py\<close>\<close>

text \<open>
  The module works on Python text (\<open>unicode_literals\<close>). A text is modelled as a
  \<open>string\<close>, one \<open>char\<close> per code point, which covers the code points below 256.
  Lists of texts are compared and sorted as Python does: lexicographically by code point.
\<close>

definition isspace :: "char \<Rightarrow> bool" where
  \<comment> \<open>the code points below 256 that \<open>str.split()\<close> treats as whitespace\<close>
  "isspace c = (c \<in> set [CHR 0x09, CHR 0x0A, CHR 0x0B, CHR 0x0C, CHR 0x0D,
                          CHR 0x1C, CHR 0x1D, CHR 0x1E, CHR 0x1F, CHR 0x20,
                          CHR 0x85, CHR 0xA0])"

definition lower_char :: "char \<Rightarrow> char" where
  \<comment> \<open>\<open>A\<close>..\<open>Z\<close> and the Latin-1 capitals (all of 0xC0..0xDE but the sign 0xD7) move up by 32\<close>
  "lower_char c =
     (let n = (of_char c :: nat) in
      if (65 \<le> n \<and> n \<le> 90) \<or> (192 \<le> n \<and> n \<le> 222 \<and> n \<noteq> 215)
      then char_of (n + 32) else c)"

definition lower :: "string \<Rightarrow> string" where
  \<comment> \<open>\<open>text.lower()\<close>\<close>
  "lower s = map lower_char s"

fun split_from :: "string \<Rightarrow> string \<Rightarrow> string list" where
  \<comment> \<open>the scan of \<open>str.split()\<close>; the first argument is the word read so far\<close>
  "split_from w [] = (if w = [] then [] else [w])"
| "split_from w (c # cs) =
     (if isspace c then (if w = [] then split_from [] cs else w # split_from [] cs)
      else split_from (w @ [c]) cs)"

definition split_ws :: "string \<Rightarrow> string list" where
  \<comment> \<open>\<open>text.split()\<close>: the maximal runs of non-whitespace, in order\<close>
  "split_ws s = split_from [] s"

fun split_sep_from :: "string \<Rightarrow> char \<Rightarrow> string \<Rightarrow> string list" where
  "split_sep_from w sep [] = [w]"
| "split_sep_from w sep (c # cs) =
     (if c = sep then w # split_sep_from [] sep cs else split_sep_from (w @ [c]) sep cs)"

definition split_sep :: "char \<Rightarrow> string \<Rightarrow> string list" where
  \<comment> \<open>\<open>text.split(sep)\<close> for a one-character separator: empty fields are kept\<close>
  "split_sep sep s = split_sep_from [] sep s"

definition startswith :: "string \<Rightarrow> string \<Rightarrow> bool" where
  "startswith s p = (take (length p) s = p)"

definition endswith :: "string \<Rightarrow> string \<Rightarrow> bool" where
  "endswith s p = (length p \<le> length s \<and> drop (length s - length p) s = p)"

fun contains :: "string \<Rightarrow> string \<Rightarrow> bool" where
  \<comment> \<open>\<open>sub in s\<close> on texts: \<open>sub\<close> occurs in \<open>s\<close> as a contiguous piece\<close>
  "contains [] sub = (sub = [])"
| "contains (c # cs) sub = (startswith (c # cs) sub \<or> contains cs sub)"

fun combinations :: "'a list \<Rightarrow> nat \<Rightarrow> 'a list list" where
  \<comment> \<open>\<open>itertools.combinations(xs, r)\<close>: the length-\<open>r\<close> selections, each in the order of \<open>xs\<close>\<close>
  "combinations xs 0 = [[]]"
| "combinations [] (Suc r) = []"
| "combinations (x # xs) (Suc r) = map ((#) x) (combinations xs r) @ combinations xs (Suc r)"

section \<open>Attributes\<close>

text \<open>
  \<open>Attrs\<close> is the named tuple of \<open>styles/base.py\<close>; a field holding Python's \<open>None\<close>
  is \<open>None\<close> here, and a field holding a value \<open>v\<close> is \<open>Some v\<close>.
\<close>

record Attrs =
  color :: "string option"
  bgcolor :: "string option"
  bold :: "bool option"
  underline :: "bool option"
  italic :: "bool option"
  blink :: "bool option"
  reverse :: "bool option"

datatype error =
    ValueError string  \<comment> \<open>\<open>ValueError('Wrong color format %r' % text)\<close>, the spec's InvalidColorFormat\<close>
  | AssertionError     \<comment> \<open>the failed \<open>assert not class_names_2\<close>, the spec's UnexpectedClassReference\<close>

definition EMPTY_ATTRS :: Attrs where
  "EMPTY_ATTRS = \<lparr>color = None, bgcolor = None, bold = None, underline = None,
                  italic = None, blink = None, reverse = None\<rparr>"

text \<open>
  Modelled from the spec: \<open>DEFAULT_ATTRS\<close> is imported from \<open>styles/base.py\<close>, which is not
  part of the sources at hand. The spec describes it as the override in which all fields
  are explicitly false/empty.
\<close>

definition DEFAULT_ATTRS :: Attrs where
  "DEFAULT_ATTRS = \<lparr>color = Some '''', bgcolor = Some '''', bold = Some False,
                    underline = Some False, italic = Some False, blink = Some False,
                    reverse = Some False\<rparr>"

section \<open>Color validation\<close>

text \<open>
  \<open>ANSI_COLOR_NAMES\<close> is imported from \<open>styles/base.py\<close> as well; the palette is a parameter
  of every function that reaches \<open>_colorformat\<close>.
\<close>

definition colorformat :: "string list \<Rightarrow> string \<Rightarrow> error + string" where
  "colorformat ANSI_COLOR_NAMES text =
     (if take 1 text = ''#'' then
        (let col = drop 1 text in
         if col \<in> set ANSI_COLOR_NAMES then Inr col
         else if length col = 6 then Inr col
         else if length col = 3 then
           Inr ([col ! 0, col ! 0] @ [col ! 1, col ! 1] @ [col ! 2, col ! 2])
         else Inl (ValueError text))
      else if text \<in> set ['''', ''default''] then Inr text
      else Inl (ValueError text))"

section \<open>The style string parser\<close>

definition parse_part ::
  "string list \<Rightarrow> string \<Rightarrow> Attrs \<times> string list \<Rightarrow> error + Attrs \<times> string list" where
  \<comment> \<open>one round of the loop over \<open>style_str.split()\<close>\<close>
  "parse_part ANSI_COLOR_NAMES part st =
     (case st of (attrs, class_names) \<Rightarrow>
        if part = ''noinherit'' then Inr (attrs, class_names)
        else if part = ''bold'' then Inr (attrs\<lparr>bold := Some True\<rparr>, class_names)
        else if part = ''nobold'' then Inr (attrs\<lparr>bold := Some False\<rparr>, class_names)
        else if part = ''italic'' then Inr (attrs\<lparr>italic := Some True\<rparr>, class_names)
        else if part = ''noitalic'' then Inr (attrs\<lparr>italic := Some False\<rparr>, class_names)
        else if part = ''underline'' then Inr (attrs\<lparr>underline := Some True\<rparr>, class_names)
        else if part = ''nounderline'' then Inr (attrs\<lparr>underline := Some False\<rparr>, class_names)
        else if part = ''blink'' then Inr (attrs\<lparr>blink := Some True\<rparr>, class_names)
        else if part = ''noblink'' then Inr (attrs\<lparr>blink := Some False\<rparr>, class_names)
        else if part = ''reverse'' then Inr (attrs\<lparr>reverse := Some True\<rparr>, class_names)
        else if part = ''noreverse'' then Inr (attrs\<lparr>reverse := Some False\<rparr>, class_names)
        else if part \<in> set [''roman'', ''sans'', ''mono''] then Inr (attrs, class_names)
        else if startswith part ''border:'' then Inr (attrs, class_names)
        else if startswith part ''class:'' then
          Inr (attrs, class_names @ split_sep CHR '','' (lower (drop 6 part)))
        else if startswith part ''['' \<and> endswith part '']'' then Inr (attrs, class_names)
        else if startswith part ''bg:'' then
          (case colorformat ANSI_COLOR_NAMES (drop 3 part) of
             Inl e \<Rightarrow> Inl e
           | Inr c \<Rightarrow> Inr (attrs\<lparr>bgcolor := Some c\<rparr>, class_names))
        else
          (case colorformat ANSI_COLOR_NAMES part of
             Inl e \<Rightarrow> Inl e
           | Inr c \<Rightarrow> Inr (attrs\<lparr>color := Some c\<rparr>, class_names)))"

fun parse_parts ::
  "string list \<Rightarrow> string list \<Rightarrow> Attrs \<times> string list \<Rightarrow> error + Attrs \<times> string list" where
  "parse_parts ANSI_COLOR_NAMES [] st = Inr st"
| "parse_parts ANSI_COLOR_NAMES (part # parts) st =
     (case parse_part ANSI_COLOR_NAMES part st of
        Inl e \<Rightarrow> Inl e
      | Inr st' \<Rightarrow> parse_parts ANSI_COLOR_NAMES parts st')"

definition parse_style_str :: "string list \<Rightarrow> string \<Rightarrow> error + Attrs \<times> string list" where
  "parse_style_str ANSI_COLOR_NAMES style_str =
     parse_parts ANSI_COLOR_NAMES (split_ws style_str)
       (if contains style_str ''noinherit'' then DEFAULT_ATTRS else EMPTY_ATTRS, [])"

section \<open>Merging layers\<close>

primrec first_not_None :: "'a option list \<Rightarrow> 'a option" where
  "first_not_None [] = None"
| "first_not_None (v # vs) = (if v \<noteq> None then v else first_not_None vs)"

definition or_values :: "'a option list \<Rightarrow> 'a option" where
  \<comment> \<open>the local \<open>_or\<close>: the first value that is not \<open>None\<close>, starting at the end\<close>
  "or_values values = first_not_None (rev values)"

definition merge_attrs :: "Attrs list \<Rightarrow> Attrs" where
  "merge_attrs list_of_attrs =
     \<lparr>color = or_values (Some '''' # map color list_of_attrs),
      bgcolor = or_values (Some '''' # map bgcolor list_of_attrs),
      bold = or_values (Some False # map bold list_of_attrs),
      underline = or_values (Some False # map underline list_of_attrs),
      italic = or_values (Some False # map italic list_of_attrs),
      blink = or_values (Some False # map blink list_of_attrs),
      reverse = or_values (Some False # map reverse list_of_attrs)\<rparr>"

section \<open>The class \<open>Style\<close>\<close>

type_synonym stylesheet = "(string list \<times> Attrs) list"

fun init_rules ::
  "string list \<Rightarrow> (string \<times> string) list \<Rightarrow> stylesheet \<Rightarrow> error + stylesheet" where
  \<comment> \<open>the loop of \<open>Style.__init__\<close>; the last argument is \<open>class_names_and_attrs\<close> so far\<close>
  "init_rules ANSI_COLOR_NAMES [] class_names_and_attrs = Inr class_names_and_attrs"
| "init_rules ANSI_COLOR_NAMES ((class_names, style_str) # rest) class_names_and_attrs =
     (let class_names' = sort (split_ws (lower class_names)) in
      case parse_style_str ANSI_COLOR_NAMES style_str of
        Inl e \<Rightarrow> Inl e
      | Inr (attrs, class_names_2) \<Rightarrow>
          if class_names_2 \<noteq> [] then Inl AssertionError
          else init_rules ANSI_COLOR_NAMES rest
                 (class_names_and_attrs @ [(class_names', attrs)]))"

definition Style_init :: "string list \<Rightarrow> (string \<times> string) list \<Rightarrow> error + stylesheet" where
  "Style_init ANSI_COLOR_NAMES style_rules = init_rules ANSI_COLOR_NAMES style_rules []"

definition combos_of :: "string list \<Rightarrow> string list list" where
  \<comment> \<open>the set \<open>combos\<close> of \<open>get_attrs_for_style_str\<close>, as the list of its members\<close>
  "combos_of class_names =
     [''''] # concat (map (combinations class_names) [1 ..< length class_names + 1])"

definition matching_attrs :: "stylesheet \<Rightarrow> string list list \<Rightarrow> Attrs list" where
  \<comment> \<open>the loop over \<open>self.class_names_and_attrs\<close>\<close>
  "matching_attrs class_names_and_attrs combos =
     map snd (filter (\<lambda>(class_names, attr). class_names \<in> set combos) class_names_and_attrs)"

definition get_attrs_for_style_str ::
  "string list \<Rightarrow> stylesheet \<Rightarrow> string \<Rightarrow> Attrs \<Rightarrow> error + Attrs" where
  "get_attrs_for_style_str ANSI_COLOR_NAMES class_names_and_attrs style_str default' =
     (case parse_style_str ANSI_COLOR_NAMES style_str of
        Inl e \<Rightarrow> Inl e
      | Inr (inline_attrs, class_names) \<Rightarrow>
          Inr (merge_attrs
                 ([default']
                  @ matching_attrs class_names_and_attrs (combos_of class_names)
                  @ [inline_attrs])))"

section \<open>Merging: the last layer that sets a field wins\<close>

lemma first_not_None_skip:
  "\<forall>z\<in>set zs. z = None \<Longrightarrow> first_not_None (zs @ rest) = first_not_None rest"
  by (induction zs) auto

lemma or_values_last:
  "\<forall>z\<in>set zs. z = None \<Longrightarrow> or_values (d # ys @ Some v # zs) = Some v"
  using first_not_None_skip [of "rev zs" "Some v # rev ys @ [d]"]
  by (simp add: or_values_def)

lemma or_values_all_None:
  "\<forall>z\<in>set zs. z = None \<Longrightarrow> or_values (Some d # zs) = Some d"
  using first_not_None_skip [of "rev zs" "[Some d]"]
  by (simp add: or_values_def)

lemma first_not_None_end: "first_not_None (zs @ [Some d]) \<noteq> None"
  by (induction zs) auto

lemma or_values_not_None: "or_values (Some d # zs) \<noteq> None"
  using first_not_None_end [of "rev zs" d] by (simp add: or_values_def)

lemma or_values_field_last:
  assumes "layers = ys @ a # zs" "f a = Some v" "\<forall>z\<in>set zs. f z = None"
  shows "or_values (Some d # map f layers) = Some v"
  using assms or_values_last [of "map f zs" "Some d" "map f ys" v] by simp

lemma or_values_field_default:
  assumes "\<forall>a\<in>set layers. f a = None"
  shows "or_values (Some d # map f layers) = Some d"
  using assms or_values_all_None [of "map f layers" d] by simp

lemma merge_attrs_fully_set:
  "color (merge_attrs xs) \<noteq> None" "bgcolor (merge_attrs xs) \<noteq> None"
  "bold (merge_attrs xs) \<noteq> None" "underline (merge_attrs xs) \<noteq> None"
  "italic (merge_attrs xs) \<noteq> None" "blink (merge_attrs xs) \<noteq> None"
  "reverse (merge_attrs xs) \<noteq> None"
  by (simp_all add: merge_attrs_def or_values_not_None del: not_None_eq list.map map_append)

lemma parse_empty: "parse_style_str ANSI_COLOR_NAMES '''' = Inr (EMPTY_ATTRS, [])"
  by (simp add: parse_style_str_def split_ws_def)

text \<open>
  C3. For every list of layers given to \<open>_merge_attrs\<close> and each of the seven fields: when
  some layer sets the field and no later layer does, the merged field is that layer's value
  (whatever earlier layers hold, and also when the value is \<open>False\<close> or the empty color);
  when no layer sets the field, the merged field is \<open>False\<close> for the five boolean fields and
  the empty text for the two color fields. So an unset field never replaces a value merged
  before it, while an explicit \<open>False\<close> or empty color does; merging unset, true, unset for
  \<open>bold\<close> gives true.
\<close>

theorem merge_attrs_last_set:
  "(\<forall>ys a zs v. layers = ys @ a # zs \<and> color a = Some v \<and> (\<forall>z\<in>set zs. color z = None)
       \<longrightarrow> color (merge_attrs layers) = Some v)
   \<and> (\<forall>ys a zs v. layers = ys @ a # zs \<and> bgcolor a = Some v \<and> (\<forall>z\<in>set zs. bgcolor z = None)
       \<longrightarrow> bgcolor (merge_attrs layers) = Some v)
   \<and> (\<forall>ys a zs v. layers = ys @ a # zs \<and> bold a = Some v \<and> (\<forall>z\<in>set zs. bold z = None)
       \<longrightarrow> bold (merge_attrs layers) = Some v)
   \<and> (\<forall>ys a zs v. layers = ys @ a # zs \<and> underline a = Some v \<and> (\<forall>z\<in>set zs. underline z = None)
       \<longrightarrow> underline (merge_attrs layers) = Some v)
   \<and> (\<forall>ys a zs v. layers = ys @ a # zs \<and> italic a = Some v \<and> (\<forall>z\<in>set zs. italic z = None)
       \<longrightarrow> italic (merge_attrs layers) = Some v)
   \<and> (\<forall>ys a zs v. layers = ys @ a # zs \<and> blink a = Some v \<and> (\<forall>z\<in>set zs. blink z = None)
       \<longrightarrow> blink (merge_attrs layers) = Some v)
   \<and> (\<forall>ys a zs v. layers = ys @ a # zs \<and> reverse a = Some v \<and> (\<forall>z\<in>set zs. reverse z = None)
       \<longrightarrow> reverse (merge_attrs layers) = Some v)
   \<and> ((\<forall>a\<in>set layers. color a = None) \<longrightarrow> color (merge_attrs layers) = Some '''')
   \<and> ((\<forall>a\<in>set layers. bgcolor a = None) \<longrightarrow> bgcolor (merge_attrs layers) = Some '''')
   \<and> ((\<forall>a\<in>set layers. bold a = None) \<longrightarrow> bold (merge_attrs layers) = Some False)
   \<and> ((\<forall>a\<in>set layers. underline a = None) \<longrightarrow> underline (merge_attrs layers) = Some False)
   \<and> ((\<forall>a\<in>set layers. italic a = None) \<longrightarrow> italic (merge_attrs layers) = Some False)
   \<and> ((\<forall>a\<in>set layers. blink a = None) \<longrightarrow> blink (merge_attrs layers) = Some False)
   \<and> ((\<forall>a\<in>set layers. reverse a = None) \<longrightarrow> reverse (merge_attrs layers) = Some False)"
  unfolding merge_attrs_def
  by (intro conjI allI impI; (elim conjE)?;
      simp add: or_values_field_last or_values_field_default del: map_append list.map)

theorem merge_attrs_last_set_witness:
  "bold (merge_attrs [EMPTY_ATTRS, EMPTY_ATTRS\<lparr>bold := Some True\<rparr>, EMPTY_ATTRS]) = Some True
   \<and> bold (merge_attrs [EMPTY_ATTRS\<lparr>bold := Some True\<rparr>, EMPTY_ATTRS]) = Some True
   \<and> bold (merge_attrs [EMPTY_ATTRS\<lparr>bold := Some True\<rparr>, EMPTY_ATTRS\<lparr>bold := Some False\<rparr>])
       = Some False
   \<and> color (merge_attrs [EMPTY_ATTRS\<lparr>color := Some ''ff0000''\<rparr>, EMPTY_ATTRS\<lparr>color := Some []\<rparr>])
       = Some []
   \<and> italic (merge_attrs [EMPTY_ATTRS, EMPTY_ATTRS\<lparr>bold := Some True\<rparr>]) = Some False"
proof -
  let ?T = "EMPTY_ATTRS\<lparr>bold := Some True\<rparr>"
  let ?F = "EMPTY_ATTRS\<lparr>bold := Some False\<rparr>"
  let ?R = "EMPTY_ATTRS\<lparr>color := Some ''ff0000''\<rparr>"
  let ?N = "EMPTY_ATTRS\<lparr>color := Some []\<rparr>"
  note t = merge_attrs_last_set [rule_format]
  note c = t [THEN conjunct1, rule_format]
  note b = t [THEN conjunct2, THEN conjunct2, THEN conjunct1, rule_format]
  note i = t [THEN conjunct2, THEN conjunct2, THEN conjunct2, THEN conjunct2, THEN conjunct2,
              THEN conjunct2, THEN conjunct2, THEN conjunct2, THEN conjunct2, THEN conjunct2,
              THEN conjunct2, THEN conjunct1, rule_format]
  have "bold (merge_attrs [EMPTY_ATTRS, ?T, EMPTY_ATTRS]) = Some True"
    by (rule b [of _ "[EMPTY_ATTRS]" ?T "[EMPTY_ATTRS]"]) (simp add: EMPTY_ATTRS_def)
  moreover have "bold (merge_attrs [?T, EMPTY_ATTRS]) = Some True"
    by (rule b [of _ "[]" ?T "[EMPTY_ATTRS]"]) (simp add: EMPTY_ATTRS_def)
  moreover have "bold (merge_attrs [?T, ?F]) = Some False"
    by (rule b [of _ "[?T]" ?F "[]"]) simp
  moreover have "color (merge_attrs [?R, ?N]) = Some []"
    by (rule c [of _ "[?R]" ?N "[]"]) simp
  moreover have "italic (merge_attrs [EMPTY_ATTRS, ?T]) = Some False"
    by (rule i) (auto simp: EMPTY_ATTRS_def)
  ultimately show ?thesis by (intro conjI)
qed

section \<open>Resolving a style string\<close>

text \<open>
  C4. Whenever \<open>get_attrs_for_style_str\<close> returns, for any stylesheet, style string and
  default (also a default with unset fields), none of the seven fields of the result is
  unset.
\<close>

theorem resolve_fully_set:
  assumes "get_attrs_for_style_str ANSI_COLOR_NAMES class_names_and_attrs style_str default' = Inr r"
  shows "color r \<noteq> None \<and> bgcolor r \<noteq> None \<and> bold r \<noteq> None \<and> underline r \<noteq> None
       \<and> italic r \<noteq> None \<and> blink r \<noteq> None \<and> reverse r \<noteq> None"
proof -
  from assms obtain layers where "r = merge_attrs layers"
    by (auto simp: get_attrs_for_style_str_def split: sum.splits)
  then show ?thesis
    using merge_attrs_fully_set [of layers] by blast
qed

theorem resolve_fully_set_witness:
  "get_attrs_for_style_str [] [([''a''], EMPTY_ATTRS\<lparr>bold := Some True\<rparr>)] ''class:a'' EMPTY_ATTRS
     = Inr (DEFAULT_ATTRS\<lparr>bold := Some True\<rparr>)
   \<and> color (DEFAULT_ATTRS\<lparr>bold := Some True\<rparr>) \<noteq> None
   \<and> bgcolor (DEFAULT_ATTRS\<lparr>bold := Some True\<rparr>) \<noteq> None
   \<and> bold (DEFAULT_ATTRS\<lparr>bold := Some True\<rparr>) \<noteq> None
   \<and> underline (DEFAULT_ATTRS\<lparr>bold := Some True\<rparr>) \<noteq> None
   \<and> italic (DEFAULT_ATTRS\<lparr>bold := Some True\<rparr>) \<noteq> None
   \<and> blink (DEFAULT_ATTRS\<lparr>bold := Some True\<rparr>) \<noteq> None
   \<and> reverse (DEFAULT_ATTRS\<lparr>bold := Some True\<rparr>) \<noteq> None"
proof -
  have e: "get_attrs_for_style_str [] [([''a''], EMPTY_ATTRS\<lparr>bold := Some True\<rparr>)] ''class:a''
             EMPTY_ATTRS = Inr (DEFAULT_ATTRS\<lparr>bold := Some True\<rparr>)"
    by code_simp
  from resolve_fully_set [OF e] e show ?thesis by (intro conjI) blast+
qed

text \<open>
  C7. The stylesheet built from the empty rule list is empty, and resolving the empty style
  string against it returns the default unchanged, for every default whose seven fields
  are all set.
\<close>

theorem resolve_empty_is_default:
  "Style_init ANSI_COLOR_NAMES [] = Inr []
   \<and> (color d \<noteq> None \<and> bgcolor d \<noteq> None \<and> bold d \<noteq> None \<and> underline d \<noteq> None
        \<and> italic d \<noteq> None \<and> blink d \<noteq> None \<and> reverse d \<noteq> None
      \<longrightarrow> get_attrs_for_style_str ANSI_COLOR_NAMES [] '''' d = Inr d)"
proof (intro conjI impI)
  show "Style_init ANSI_COLOR_NAMES [] = Inr []"
    by (simp add: Style_init_def)
next
  assume "color d \<noteq> None \<and> bgcolor d \<noteq> None \<and> bold d \<noteq> None \<and> underline d \<noteq> None
        \<and> italic d \<noteq> None \<and> blink d \<noteq> None \<and> reverse d \<noteq> None"
  then have "merge_attrs [d, EMPTY_ATTRS] = d"
    by (cases d) (auto simp: merge_attrs_def or_values_def EMPTY_ATTRS_def)
  then show "get_attrs_for_style_str ANSI_COLOR_NAMES [] '''' d = Inr d"
    by (simp add: get_attrs_for_style_str_def parse_empty matching_attrs_def)
qed

theorem resolve_empty_is_default_witness:
  "Style_init [] [] = Inr []
   \<and> get_attrs_for_style_str [] [] ''''
        (DEFAULT_ATTRS\<lparr>color := Some ''ff0000'', bold := Some True\<rparr>)
       = Inr (DEFAULT_ATTRS\<lparr>color := Some ''ff0000'', bold := Some True\<rparr>)"
  using resolve_empty_is_default [of "[]" "DEFAULT_ATTRS\<lparr>color := Some ''ff0000'', bold := Some True\<rparr>"]
  by (simp add: DEFAULT_ATTRS_def)

section \<open>Color validation: accepted and rejected texts\<close>

text \<open>
  C9. \<open>_colorformat\<close> returns a validated text on every input of one of the forms
  \<open>#\<close> + palette name, \<open>#\<close> + exactly 6 characters, \<open>#\<close> + exactly 3 characters, the empty
  text, or \<open>default\<close>, and raises \<open>ValueError\<close> (InvalidColorFormat) on every other input.
  A 3-character remainder that is no palette name is expanded by doubling each character in
  place; so \<open>#12\<close> is rejected and \<open>#f80\<close> gives \<open>ff8800\<close>, for any palette that has neither
  \<open>12\<close> nor \<open>f80\<close> as a name.
\<close>

theorem colorformat_accepts_exactly:
  "((\<exists>col. text = CHR ''#'' # col \<and>
           (col \<in> set ANSI_COLOR_NAMES \<or> length col = 6 \<or> length col = 3))
      \<or> text = '''' \<or> text = ''default''
     \<longrightarrow> (\<exists>r. colorformat ANSI_COLOR_NAMES text = Inr r))
   \<and> (\<not> ((\<exists>col. text = CHR ''#'' # col \<and>
              (col \<in> set ANSI_COLOR_NAMES \<or> length col = 6 \<or> length col = 3))
         \<or> text = '''' \<or> text = ''default'')
     \<longrightarrow> colorformat ANSI_COLOR_NAMES text = Inl (ValueError text))
   \<and> (\<forall>a b c. [a, b, c] \<notin> set ANSI_COLOR_NAMES
        \<longrightarrow> colorformat ANSI_COLOR_NAMES [CHR ''#'', a, b, c] = Inr [a, a, b, b, c, c])
   \<and> (''12'' \<notin> set ANSI_COLOR_NAMES
        \<longrightarrow> colorformat ANSI_COLOR_NAMES ''#12'' = Inl (ValueError ''#12''))
   \<and> (''f80'' \<notin> set ANSI_COLOR_NAMES
        \<longrightarrow> colorformat ANSI_COLOR_NAMES ''#f80'' = Inr ''ff8800'')"
proof (intro conjI impI allI)
  assume ok: "(\<exists>col. text = CHR ''#'' # col \<and>
           (col \<in> set ANSI_COLOR_NAMES \<or> length col = 6 \<or> length col = 3))
      \<or> text = '''' \<or> text = ''default''"
  then show "\<exists>r. colorformat ANSI_COLOR_NAMES text = Inr r"
    by (auto simp: colorformat_def Let_def)
next
  assume bad: "\<not> ((\<exists>col. text = CHR ''#'' # col \<and>
              (col \<in> set ANSI_COLOR_NAMES \<or> length col = 6 \<or> length col = 3))
         \<or> text = '''' \<or> text = ''default'')"
  show "colorformat ANSI_COLOR_NAMES text = Inl (ValueError text)"
  proof (cases "text")
    case Nil
    with bad show ?thesis by simp
  next
    case (Cons x col)
    with bad show ?thesis by (auto simp: colorformat_def Let_def)
  qed
qed (simp_all add: colorformat_def)

theorem colorformat_accepts_exactly_witness:
  "colorformat [''ansired''] ''#12'' = Inl (ValueError ''#12'')
   \<and> colorformat [''ansired''] ''#f80'' = Inr ''ff8800''
   \<and> (\<exists>r. colorformat [''ansired''] ''#ansired'' = Inr r)
   \<and> (\<exists>r. colorformat [''ansired''] ''default'' = Inr r)
   \<and> colorformat [''ansired''] ''red'' = Inl (ValueError ''red'')"
proof -
  note t = colorformat_accepts_exactly [of _ "[''ansired'']"]
  have "colorformat [''ansired''] ''#12'' = Inl (ValueError ''#12'')"
    using t [of "''#12''"] by simp
  moreover have "colorformat [''ansired''] ''#f80'' = Inr ''ff8800''"
    using t [of "''#f80''"] by simp
  moreover have "\<exists>r. colorformat [''ansired''] ''#ansired'' = Inr r"
    using t [of "''#ansired''"] by simp
  moreover have "\<exists>r. colorformat [''ansired''] ''default'' = Inr r"
    using t [of "''default''"] by simp
  moreover have "colorformat [''ansired''] ''red'' = Inl (ValueError ''red'')"
    using t [of "''red''"] by simp
  ultimately show ?thesis by blast
qed

text \<open>
  C10. When the text begins with \<open>#\<close> and exactly 6 characters follow, \<open>_colorformat\<close> returns
  those 6 characters unchanged, whatever they are: no character is checked to be a
  hexadecimal digit. So \<open>#zzzzzz\<close> is accepted and yields \<open>zzzzzz\<close>.
\<close>

theorem colorformat_six_unchecked:
  "length col = 6 \<Longrightarrow> colorformat ANSI_COLOR_NAMES (CHR ''#'' # col) = Inr col"
  by (simp add: colorformat_def)

theorem colorformat_six_unchecked_witness:
  "length ''zzzzzz'' = 6 \<and> colorformat [''ansired''] ''#zzzzzz'' = Inr ''zzzzzz''"
  using colorformat_six_unchecked [of "''zzzzzz''" "[''ansired'']"] by simp

section \<open>Construction keeps the rules in order\<close>

lemma init_rules_all2:
  "init_rules ANSI_COLOR_NAMES rules acc = Inr st \<Longrightarrow>
   \<exists>st'. st = acc @ st' \<and>
     list_all2 (\<lambda>rule entry. fst entry = sort (split_ws (lower (fst rule))) \<and>
                  parse_style_str ANSI_COLOR_NAMES (snd rule) = Inr (snd entry, []))
       rules st'"
proof (induction rules arbitrary: acc)
  case Nil
  then show ?case by simp
next
  case (Cons rule rules)
  obtain c s where rule: "rule = (c, s)" by (cases rule)
  from Cons.prems rule obtain a where
    p: "parse_style_str ANSI_COLOR_NAMES s = Inr (a, [])" and
    r: "init_rules ANSI_COLOR_NAMES rules (acc @ [(sort (split_ws (lower c)), a)]) = Inr st"
    by (auto split: sum.splits if_splits)
  from Cons.IH [OF r] obtain st' where
    "st = (acc @ [(sort (split_ws (lower c)), a)]) @ st'" and
    "list_all2 (\<lambda>rule entry. fst entry = sort (split_ws (lower (fst rule))) \<and>
                  parse_style_str ANSI_COLOR_NAMES (snd rule) = Inr (snd entry, []))
       rules st'"
    by blast
  with p rule show ?case by simp
qed

lemma parse_bold: "parse_style_str ANSI_COLOR_NAMES ''bold'' = Inr (EMPTY_ATTRS\<lparr>bold := Some True\<rparr>, [])"
  by (simp add: parse_style_str_def split_ws_def isspace_def startswith_def parse_part_def)

lemma parse_nobold: "parse_style_str ANSI_COLOR_NAMES ''nobold'' = Inr (EMPTY_ATTRS\<lparr>bold := Some False\<rparr>, [])"
  by (simp add: parse_style_str_def split_ws_def isspace_def startswith_def parse_part_def)

lemma parse_italic: "parse_style_str ANSI_COLOR_NAMES ''italic'' = Inr (EMPTY_ATTRS\<lparr>italic := Some True\<rparr>, [])"
  by (simp add: parse_style_str_def split_ws_def isspace_def startswith_def parse_part_def)

lemma lower_a: "lower ''a'' = ''a''"
  by code_simp

lemma sort_a: "sort (split_ws ''a'') = [''a'']"
  by code_simp

lemma combos_a: "combos_of [''a''] = [[''''], [''a'']]"
  by code_simp

lemma split_sep_a: "split_sep CHR '','' ''a'' = [''a'']"
  by code_simp

lemma parse_class_a: "parse_style_str ANSI_COLOR_NAMES ''class:a'' = Inr (EMPTY_ATTRS, [''a''])"
  by (simp add: parse_style_str_def split_ws_def isspace_def startswith_def parse_part_def
       lower_a [simplified] split_sep_a)


lemmas parse_examples = parse_bold parse_nobold parse_italic parse_class_a

text \<open>
  C5. \<open>Style.__init__\<close> stores exactly one entry per rule, in the order supplied: entry
  \<open>i\<close> holds the sorted, lower-cased class names of rule \<open>i\<close> and the attributes parsed from
  its style string; nothing is reordered, dropped or merged. A query merges the default,
  then the attributes of every matching entry in stylesheet order (entries that share a
  class combination each appear), then the inline attributes, so by C3 the later entry
  wins per field. For the rules \<open>a \<mapsto> bold\<close>, \<open>a \<mapsto> nobold\<close> in that order the query \<open>class:a\<close>
  gives bold = false, and for \<open>a \<mapsto> bold\<close>, \<open>a \<mapsto> italic\<close> both bold and italic are true.
\<close>

theorem Style_rule_order_kept:
  "(\<forall>st. Style_init ANSI_COLOR_NAMES rules = Inr st \<longrightarrow>
       length st = length rules \<and>
       (\<forall>i<length rules.
           fst (st ! i) = sort (split_ws (lower (fst (rules ! i)))) \<and>
           parse_style_str ANSI_COLOR_NAMES (snd (rules ! i)) = Inr (snd (st ! i), [])))
   \<and> (\<forall>st inline_attrs class_names.
         parse_style_str ANSI_COLOR_NAMES style_str = Inr (inline_attrs, class_names) \<longrightarrow>
         get_attrs_for_style_str ANSI_COLOR_NAMES st style_str default' =
           Inr (merge_attrs
                  ([default']
                   @ map snd (filter (\<lambda>entry. fst entry \<in> set (combos_of class_names)) st)
                   @ [inline_attrs])))
   \<and> Style_init ANSI_COLOR_NAMES [(''a'', ''bold''), (''a'', ''nobold'')] =
         Inr [([''a''], EMPTY_ATTRS\<lparr>bold := Some True\<rparr>),
              ([''a''], EMPTY_ATTRS\<lparr>bold := Some False\<rparr>)]
   \<and> (\<exists>r. get_attrs_for_style_str ANSI_COLOR_NAMES
              [([''a''], EMPTY_ATTRS\<lparr>bold := Some True\<rparr>),
               ([''a''], EMPTY_ATTRS\<lparr>bold := Some False\<rparr>)] ''class:a'' default' = Inr r
          \<and> bold r = Some False)
   \<and> Style_init ANSI_COLOR_NAMES [(''a'', ''bold''), (''a'', ''italic'')] =
         Inr [([''a''], EMPTY_ATTRS\<lparr>bold := Some True\<rparr>),
              ([''a''], EMPTY_ATTRS\<lparr>italic := Some True\<rparr>)]
   \<and> (\<exists>r. get_attrs_for_style_str ANSI_COLOR_NAMES
              [([''a''], EMPTY_ATTRS\<lparr>bold := Some True\<rparr>),
               ([''a''], EMPTY_ATTRS\<lparr>italic := Some True\<rparr>)] ''class:a'' default' = Inr r
          \<and> bold r = Some True \<and> italic r = Some True)"
proof -
  have A: "\<forall>st. Style_init ANSI_COLOR_NAMES rules = Inr st \<longrightarrow>
       length st = length rules \<and>
       (\<forall>i<length rules.
           fst (st ! i) = sort (split_ws (lower (fst (rules ! i)))) \<and>
           parse_style_str ANSI_COLOR_NAMES (snd (rules ! i)) = Inr (snd (st ! i), []))"
  proof (intro allI impI)
    fix st assume "Style_init ANSI_COLOR_NAMES rules = Inr st"
    then have "list_all2 (\<lambda>rule entry. fst entry = sort (split_ws (lower (fst rule))) \<and>
                  parse_style_str ANSI_COLOR_NAMES (snd rule) = Inr (snd entry, []))
       rules st"
      using init_rules_all2 [of ANSI_COLOR_NAMES rules "[]" st] by (simp add: Style_init_def)
    then show "length st = length rules \<and>
       (\<forall>i<length rules.
           fst (st ! i) = sort (split_ws (lower (fst (rules ! i)))) \<and>
           parse_style_str ANSI_COLOR_NAMES (snd (rules ! i)) = Inr (snd (st ! i), []))"
      by (simp add: list_all2_conv_all_nth)
  qed
  have B: "\<forall>st inline_attrs class_names.
         parse_style_str ANSI_COLOR_NAMES style_str = Inr (inline_attrs, class_names) \<longrightarrow>
         get_attrs_for_style_str ANSI_COLOR_NAMES st style_str default' =
           Inr (merge_attrs
                  ([default']
                   @ map snd (filter (\<lambda>entry. fst entry \<in> set (combos_of class_names)) st)
                   @ [inline_attrs]))"
    by (simp add: get_attrs_for_style_str_def matching_attrs_def case_prod_unfold)
  have C: "Style_init ANSI_COLOR_NAMES [(''a'', ''bold''), (''a'', ''nobold'')] =
         Inr [([''a''], EMPTY_ATTRS\<lparr>bold := Some True\<rparr>),
              ([''a''], EMPTY_ATTRS\<lparr>bold := Some False\<rparr>)]"
    by (simp add: Style_init_def parse_examples lower_a sort_a)
  have D: "\<exists>r. get_attrs_for_style_str ANSI_COLOR_NAMES
              [([''a''], EMPTY_ATTRS\<lparr>bold := Some True\<rparr>),
               ([''a''], EMPTY_ATTRS\<lparr>bold := Some False\<rparr>)] ''class:a'' default' = Inr r
          \<and> bold r = Some False"
    by (simp add: get_attrs_for_style_str_def parse_examples combos_a matching_attrs_def
          merge_attrs_def or_values_def EMPTY_ATTRS_def)
  have E: "Style_init ANSI_COLOR_NAMES [(''a'', ''bold''), (''a'', ''italic'')] =
         Inr [([''a''], EMPTY_ATTRS\<lparr>bold := Some True\<rparr>),
              ([''a''], EMPTY_ATTRS\<lparr>italic := Some True\<rparr>)]"
    by (simp add: Style_init_def parse_examples lower_a sort_a)
  have F: "\<exists>r. get_attrs_for_style_str ANSI_COLOR_NAMES
              [([''a''], EMPTY_ATTRS\<lparr>bold := Some True\<rparr>),
               ([''a''], EMPTY_ATTRS\<lparr>italic := Some True\<rparr>)] ''class:a'' default' = Inr r
          \<and> bold r = Some True \<and> italic r = Some True"
    by (simp add: get_attrs_for_style_str_def parse_examples combos_a matching_attrs_def
          merge_attrs_def or_values_def EMPTY_ATTRS_def)
  show ?thesis
    by (rule conjI [OF A conjI [OF B conjI [OF C conjI [OF D conjI [OF E F]]]]])
qed

theorem Style_rule_order_kept_witness:
  "Style_init [] [(''B  a'', ''bold''), (''a'', ''nobold'')] =
     Inr [([''a'', ''b''], EMPTY_ATTRS\<lparr>bold := Some True\<rparr>),
          ([''a''], EMPTY_ATTRS\<lparr>bold := Some False\<rparr>)]
   \<and> length [([''a'', ''b''], EMPTY_ATTRS\<lparr>bold := Some True\<rparr>),
              ([''a''], EMPTY_ATTRS\<lparr>bold := Some False\<rparr>)]
       = length [(''B  a'', ''bold''), (''a'', ''nobold'')]
   \<and> parse_style_str [] ''nobold'' = Inr (EMPTY_ATTRS\<lparr>bold := Some False\<rparr>, [])
   \<and> parse_style_str [] ''class:a'' = Inr (EMPTY_ATTRS, [''a''])
   \<and> get_attrs_for_style_str []
        [([''a'', ''b''], EMPTY_ATTRS\<lparr>bold := Some True\<rparr>),
         ([''a''], EMPTY_ATTRS\<lparr>bold := Some False\<rparr>)] ''class:a'' DEFAULT_ATTRS
       = Inr (merge_attrs [DEFAULT_ATTRS, EMPTY_ATTRS\<lparr>bold := Some False\<rparr>, EMPTY_ATTRS])"
proof -
  let ?rules = "[(''B  a'', ''bold''), (''a'', ''nobold'')]"
  let ?st = "[([''a'', ''b''], EMPTY_ATTRS\<lparr>bold := Some True\<rparr>),
              ([''a''], EMPTY_ATTRS\<lparr>bold := Some False\<rparr>)]"
  note t = Style_rule_order_kept [of "[]" ?rules "''class:a''" DEFAULT_ATTRS]
  have i: "Style_init [] ?rules = Inr ?st"
    by code_simp
  have p: "parse_style_str [] ''class:a'' = Inr (EMPTY_ATTRS, [''a''])"
    by code_simp
  note u = t [THEN conjunct1, rule_format, OF i]
  have "length ?st = length ?rules"
    using u [THEN conjunct1] .
  moreover have "parse_style_str [] ''nobold'' = Inr (EMPTY_ATTRS\<lparr>bold := Some False\<rparr>, [])"
    using u [THEN conjunct2, rule_format, of 1] by simp
  moreover from t [THEN conjunct2, THEN conjunct1, rule_format, OF p, of ?st]
  have "get_attrs_for_style_str [] ?st ''class:a'' DEFAULT_ATTRS
       = Inr (merge_attrs [DEFAULT_ATTRS, EMPTY_ATTRS\<lparr>bold := Some False\<rparr>, EMPTY_ATTRS])"
    by (simp add: combos_a)
  ultimately show ?thesis using i p by simp
qed

section \<open>Class references in a rule's style string\<close>

lemma split_sep_from_not_Nil: "split_sep_from w sep s \<noteq> []"
  by (induction s arbitrary: w) auto

lemma startswith_append: "startswith s p \<Longrightarrow> s = p @ drop (length p) s"
  unfolding startswith_def by (metis append_take_drop_id)

lemma parse_part_keeps_class_names:
  "parse_part ANSI_COLOR_NAMES part (attrs, class_names) = Inr (attrs', class_names') \<Longrightarrow>
   class_names \<noteq> [] \<Longrightarrow> class_names' \<noteq> []"
  unfolding parse_part_def
  by (simp split: if_splits sum.splits) auto


lemma parse_part_class:
  assumes "startswith part ''class:''"
  shows "parse_part ANSI_COLOR_NAMES part (attrs, class_names) =
           Inr (attrs, class_names @ split_sep CHR '','' (lower (drop 6 part)))"
proof -
  from startswith_append [OF assms] obtain rest where "part = ''class:'' @ rest" ..
  then show ?thesis
    by (simp add: parse_part_def startswith_def)
qed


lemma parse_parts_keeps_class_names:
  "parse_parts ANSI_COLOR_NAMES parts (attrs, class_names) = Inr (attrs', class_names') \<Longrightarrow>
   class_names \<noteq> [] \<Longrightarrow> class_names' \<noteq> []"
proof (induction parts arbitrary: attrs class_names)
  case Nil
  then show ?case by simp
next
  case (Cons part parts)
  from Cons.prems(1) obtain a1 c1 where
    s: "parse_part ANSI_COLOR_NAMES part (attrs, class_names) = Inr (a1, c1)" and
    r: "parse_parts ANSI_COLOR_NAMES parts (a1, c1) = Inr (attrs', class_names')"
    by (auto split: sum.splits)
  from parse_part_keeps_class_names [OF s Cons.prems(2)] have "c1 \<noteq> []" .
  with Cons.IH [OF r] show ?case .
qed

lemma parse_parts_class_token:
  "part \<in> set parts \<Longrightarrow> startswith part ''class:'' \<Longrightarrow>
   parse_parts ANSI_COLOR_NAMES parts (attrs, class_names) = Inr (attrs', class_names') \<Longrightarrow>
   class_names' \<noteq> []"
proof (induction parts arbitrary: attrs class_names)
  case Nil
  then show ?case by simp
next
  case (Cons p parts)
  from Cons.prems(3) obtain a1 c1 where
    s: "parse_part ANSI_COLOR_NAMES p (attrs, class_names) = Inr (a1, c1)" and
    r: "parse_parts ANSI_COLOR_NAMES parts (a1, c1) = Inr (attrs', class_names')"
    by (auto split: sum.splits)
  show ?case
  proof (cases "part = p")
    case True
    with Cons.prems(2) s
    have "c1 = class_names @ split_sep_from [] CHR '','' (lower (drop 6 p))"
      by (simp add: parse_part_class split_sep_def)
    then have "c1 \<noteq> []"
      by (simp add: split_sep_from_not_Nil)
    with parse_parts_keeps_class_names [OF r] show ?thesis .
  next
    case False
    with Cons.prems(1) have "part \<in> set parts" by simp
    from Cons.IH [OF this Cons.prems(2) r] show ?thesis .
  qed
qed

lemma init_rules_class_token_fails:
  "(class_names, style_str) \<in> set rules \<Longrightarrow> part \<in> set (split_ws style_str) \<Longrightarrow>
   startswith part ''class:'' \<Longrightarrow> \<exists>e. init_rules ANSI_COLOR_NAMES rules acc = Inl e"
proof (induction rules arbitrary: acc)
  case Nil
  then show ?case by simp
next
  case (Cons rule rules)
  obtain c s where rule: "rule = (c, s)" by (cases rule)
  show ?case
  proof (cases "parse_style_str ANSI_COLOR_NAMES s")
    case (Inl e)
    with rule show ?thesis by simp
  next
    case (Inr res)
    obtain a cn where res: "res = (a, cn)" by (cases res)
    show ?thesis
    proof (cases "cn = []")
      case False
      with Inr res rule show ?thesis by simp
    next
      case True
      have "(class_names, style_str) \<noteq> rule"
      proof
        assume "(class_names, style_str) = rule"
        with rule have "style_str = s" by simp
        with Inr res have
          "parse_parts ANSI_COLOR_NAMES (split_ws style_str)
             (if contains style_str ''noinherit'' then DEFAULT_ATTRS else EMPTY_ATTRS, []) =
           Inr (a, cn)"
          by (simp add: parse_style_str_def)
        from parse_parts_class_token [OF Cons.prems(2,3) this] True show False by simp
      qed
      with Cons.prems(1) have "(class_names, style_str) \<in> set rules" by auto
      from Cons.IH [OF this Cons.prems(2,3), of "acc @ [(sort (split_ws (lower c)), a)]"]
        Inr res rule True
      show ?thesis by simp
    qed
  qed
qed

lemma init_rules_append:
  "init_rules ANSI_COLOR_NAMES (pre @ rest) acc =
     (case init_rules ANSI_COLOR_NAMES pre acc of
        Inl e \<Rightarrow> Inl e
      | Inr acc' \<Rightarrow> init_rules ANSI_COLOR_NAMES rest acc')"
proof (induction pre arbitrary: acc)
  case Nil
  show ?case by simp
next
  case (Cons rule pre)
  obtain c s where "rule = (c, s)" by (cases rule)
  with Cons.IH show ?case
    by (simp split: sum.splits prod.splits)
qed


text \<open>
  C8, as stated, fails: the rules are processed in order and the first error ends the
  construction. The style string \<open>class:foo\<close> of the second rule below produces the class name
  \<open>foo\<close>, yet the construction fails with the \<open>ValueError\<close> of the first rule, not with the
  failed assertion.
\<close>

theorem Style_init_class_reference_counterexample:
  "parse_style_str [] ''class:foo'' = Inr (EMPTY_ATTRS, [''foo''])
   \<and> Style_init [] [(''x'', ''zzz''), (''title'', ''class:foo'')] = Inl (ValueError ''zzz'')
   \<and> Style_init [] [(''x'', ''zzz''), (''title'', ''class:foo'')] \<noteq> Inl AssertionError"
  by code_simp

lemma Style_init_title_example:
  "Style_init ANSI_COLOR_NAMES [(''title'', ''class:foo bold'')] = Inl AssertionError"
proof -
  have w: "split_ws ''class:foo bold'' = [''class:foo'', ''bold'']"
    by code_simp
  have c: "startswith ''class:foo'' ''class:''"
    by code_simp
  have n: "\<not> contains ''class:foo bold'' ''noinherit''"
    by code_simp
  have "parse_style_str ANSI_COLOR_NAMES ''class:foo bold'' =
          Inr (EMPTY_ATTRS\<lparr>bold := Some True\<rparr>, split_sep CHR '','' (lower (drop 6 ''class:foo'')))"
    unfolding parse_style_str_def w
    by (simp only: n if_False parse_parts.simps parse_part_class [OF c] sum.case append_Nil)
       (simp add: parse_part_def)
  then show ?thesis
    by (simp add: Style_init_def split_sep_def split_sep_from_not_Nil)
qed

text \<open>
  C8, amended. Constructing a stylesheet fails (returns no stylesheet) whenever some rule's
  style string has a token that starts with \<open>class:\<close>. The failure is the failed assertion
  (the spec's UnexpectedClassReference) when the rules before that rule register without
  error and the rule's style string itself parses and yields one or more class names. The
  rule list holding only \<open>title \<mapsto> class:foo bold\<close> fails so, at construction, for every palette.
\<close>

theorem Style_init_class_reference:
  "((\<exists>rule\<in>set rules. \<exists>part\<in>set (split_ws (snd rule)). startswith part ''class:'')
      \<longrightarrow> (\<exists>e. Style_init ANSI_COLOR_NAMES rules = Inl e))
   \<and> (\<forall>pre class_names style_str post st attrs class_names_2.
         rules = pre @ (class_names, style_str) # post \<and>
         Style_init ANSI_COLOR_NAMES pre = Inr st \<and>
         parse_style_str ANSI_COLOR_NAMES style_str = Inr (attrs, class_names_2) \<and>
         class_names_2 \<noteq> []
         \<longrightarrow> Style_init ANSI_COLOR_NAMES rules = Inl AssertionError)
   \<and> Style_init ANSI_COLOR_NAMES [(''title'', ''class:foo bold'')] = Inl AssertionError"
proof -
  have A: "(\<exists>rule\<in>set rules. \<exists>part\<in>set (split_ws (snd rule)). startswith part ''class:'')
      \<longrightarrow> (\<exists>e. Style_init ANSI_COLOR_NAMES rules = Inl e)"
  proof
    assume "\<exists>rule\<in>set rules. \<exists>part\<in>set (split_ws (snd rule)). startswith part ''class:''"
    then obtain c s part where "(c, s) \<in> set rules" "part \<in> set (split_ws s)"
      "startswith part ''class:''"
      by force
    from init_rules_class_token_fails [OF this]
    show "\<exists>e. Style_init ANSI_COLOR_NAMES rules = Inl e"
      by (simp add: Style_init_def)
  qed
  have B: "\<forall>pre class_names style_str post st attrs class_names_2.
         rules = pre @ (class_names, style_str) # post \<and>
         Style_init ANSI_COLOR_NAMES pre = Inr st \<and>
         parse_style_str ANSI_COLOR_NAMES style_str = Inr (attrs, class_names_2) \<and>
         class_names_2 \<noteq> []
         \<longrightarrow> Style_init ANSI_COLOR_NAMES rules = Inl AssertionError"
    by (simp add: Style_init_def init_rules_append)
  show ?thesis
    by (rule conjI [OF A conjI [OF B Style_init_title_example]])
qed

theorem Style_init_class_reference_witness:
  "(\<exists>e. Style_init [] [(''x'', ''zzz''), (''title'', ''class:foo'')] = Inl e)
   \<and> Style_init [] [(''x'', ''bold''), (''title'', ''class:foo,bar italic'')] = Inl AssertionError
   \<and> Style_init [] [(''title'', ''class:foo bold'')] = Inl AssertionError"
proof -
  let ?r1 = "[(''x'', ''zzz''), (''title'', ''class:foo'')]"
  let ?r2 = "[(''x'', ''bold''), (''title'', ''class:foo,bar italic'')]"
  have m: "(''title'', ''class:foo'') \<in> set ?r1" by simp
  have p: "''class:foo'' \<in> set (split_ws (snd (''title'', ''class:foo'')))" by code_simp
  have c: "startswith ''class:foo'' ''class:''" by code_simp
  have "\<exists>e. Style_init [] ?r1 = Inl e"
    using Style_init_class_reference [of ?r1 "[]", THEN conjunct1] m p c by blast
  moreover have "Style_init [] ?r2 = Inl AssertionError"
  proof -
    have d: "?r2 = [(''x'', ''bold'')] @ (''title'', ''class:foo,bar italic'') # []" by simp
    have i: "Style_init [] [(''x'', ''bold'')] = Inr [([''x''], EMPTY_ATTRS\<lparr>bold := Some True\<rparr>)]"
      by code_simp
    have q: "parse_style_str [] ''class:foo,bar italic'' =
               Inr (EMPTY_ATTRS\<lparr>italic := Some True\<rparr>, [''foo'', ''bar''])"
      by code_simp
    show ?thesis
      by (rule Style_init_class_reference [of ?r2 "[]", THEN conjunct2, THEN conjunct1,
               rule_format, OF conjI [OF d conjI [OF i conjI [OF q]]]]) simp
  qed
  moreover have "Style_init [] [(''title'', ''class:foo bold'')] = Inl AssertionError"
    using Style_init_class_reference [of "[]" "[]", THEN conjunct2, THEN conjunct2] .
  ultimately show ?thesis by (intro conjI)
qed

section \<open>Which rules a query matches\<close>

lemma length_combinations: "ys \<in> set (combinations xs r) \<Longrightarrow> length ys = r"
  by (induction xs r arbitrary: ys rule: combinations.induct) auto

lemma Nil_not_in_combos_of: "[] \<notin> set (combos_of class_names)"
  by (auto simp: combos_of_def dest: length_combinations)

text \<open>
  C1. The claim is that a rule is included exactly when its class combination is a subset
  of the query's class names, whatever the order in which the query lists them. The code
  sorts the rule's names but takes the query's combinations in the order of the query
  (\<open>itertools.combinations\<close> over the unsorted list), so the rule \<open>a b\<close> is found for the
  queries \<open>class:a,b\<close> and \<open>class:a,b,c\<close> but not for \<open>class:b,a\<close> or \<open>class:c,b,a\<close>, although
  \<open>{a, b}\<close> is a subset of the query's names each time. It is not found for \<open>class:a\<close>, as
  claimed.
\<close>

theorem query_order_matters:
  "Style_init [] [(''a b'', ''underline'')] =
     Inr [([''a'', ''b''], EMPTY_ATTRS\<lparr>underline := Some True\<rparr>)]
   \<and> parse_style_str [] ''class:b,a'' = Inr (EMPTY_ATTRS, [''b'', ''a''])
   \<and> combos_of [''b'', ''a''] = [[''''], [''b''], [''a''], [''b'', ''a'']]
   \<and> get_attrs_for_style_str [] [([''a'', ''b''], EMPTY_ATTRS\<lparr>underline := Some True\<rparr>)]
        ''class:a,b'' DEFAULT_ATTRS = Inr (DEFAULT_ATTRS\<lparr>underline := Some True\<rparr>)
   \<and> get_attrs_for_style_str [] [([''a'', ''b''], EMPTY_ATTRS\<lparr>underline := Some True\<rparr>)]
        ''class:b,a'' DEFAULT_ATTRS = Inr DEFAULT_ATTRS
   \<and> get_attrs_for_style_str [] [([''a'', ''b''], EMPTY_ATTRS\<lparr>underline := Some True\<rparr>)]
        ''class:a,b,c'' DEFAULT_ATTRS = Inr (DEFAULT_ATTRS\<lparr>underline := Some True\<rparr>)
   \<and> get_attrs_for_style_str [] [([''a'', ''b''], EMPTY_ATTRS\<lparr>underline := Some True\<rparr>)]
        ''class:c,b,a'' DEFAULT_ATTRS = Inr DEFAULT_ATTRS
   \<and> get_attrs_for_style_str [] [([''a'', ''b''], EMPTY_ATTRS\<lparr>underline := Some True\<rparr>)]
        ''class:a'' DEFAULT_ATTRS = Inr DEFAULT_ATTRS"
  by code_simp

text \<open>
  C2. The claim is that a rule with no class names (registered with an empty or blank class
  string) is included for every query. Such a rule is stored under the empty tuple, while
  the set of combinations holds the one-element tuple of the empty text as its "default"
  and no empty tuple, for any query; the rule is therefore never included.
\<close>

theorem empty_combination_never_matches:
  "Style_init [] [('''', ''bold'')] = Inr [([], EMPTY_ATTRS\<lparr>bold := Some True\<rparr>)]
   \<and> Style_init [] [(''  '', ''bold'')] = Inr [([], EMPTY_ATTRS\<lparr>bold := Some True\<rparr>)]
   \<and> combos_of [] = [['''']]
   \<and> get_attrs_for_style_str [] [([], EMPTY_ATTRS\<lparr>bold := Some True\<rparr>)] '''' DEFAULT_ATTRS
       = Inr DEFAULT_ATTRS
   \<and> get_attrs_for_style_str [] [([], EMPTY_ATTRS\<lparr>bold := Some True\<rparr>)] ''class:a'' DEFAULT_ATTRS
       = Inr DEFAULT_ATTRS
   \<and> matching_attrs [([], attrs)] (combos_of class_names) = []"
proof -
  have "Style_init [] [('''', ''bold'')] = Inr [([], EMPTY_ATTRS\<lparr>bold := Some True\<rparr>)]
   \<and> Style_init [] [(''  '', ''bold'')] = Inr [([], EMPTY_ATTRS\<lparr>bold := Some True\<rparr>)]
   \<and> combos_of [] = [['''']]
   \<and> get_attrs_for_style_str [] [([], EMPTY_ATTRS\<lparr>bold := Some True\<rparr>)] '''' DEFAULT_ATTRS
       = Inr DEFAULT_ATTRS
   \<and> get_attrs_for_style_str [] [([], EMPTY_ATTRS\<lparr>bold := Some True\<rparr>)] ''class:a'' DEFAULT_ATTRS
       = Inr DEFAULT_ATTRS"
    by code_simp
  moreover have "matching_attrs [([], attrs)] (combos_of class_names) = []"
    by (simp add: matching_attrs_def Nil_not_in_combos_of)
  ultimately show ?thesis by simp
qed

end
